theory Spec2Isabelle
  imports Complex_Main "HOL-Library.AList" "HOL-Library.Sublist"
begin

section \<open>Crash monitor: the data model of \<^verbatim>\<open>monitor.py\<close>\<close>

text \<open>
  The script is a straight line of five functions: the market data fetcher, the crash
  evaluator, the state store, the notifier and \<^verbatim>\<open>main\<close>.

  Python values are modelled as follows.
  \<^item> A \<^verbatim>\<open>str\<close> is a \<open>string\<close> holding the UTF-8 bytes of the text; the Japanese
    message constants of the source are written out as their bytes.
  \<^item> A \<^verbatim>\<open>float\<close> is a \<open>real\<close>: comparisons and the arithmetic of the fetcher are
    exact. Binary rounding, overflow, infinities and NaN are outside the model.
  \<^item> A \<^verbatim>\<open>dict\<close> is an association list in insertion order, read with \<open>map_of\<close>
    and written with \<open>AList.update\<close>, which keeps the position of a key that is
    already there and appends a new one, as Python does.
  \<^item> An exception that the source does not catch is a value \<open>Inl e\<close> of the result.
\<close>

datatype py_error = KeyError string | TypeError | AttributeError

text \<open>The values of the inner dictionaries of the market data: numbers and the symbol.\<close>

datatype pyval = Num real | Str string

type_synonym snapshot = "(string \<times> pyval) list"
type_synonym market_data = "(string \<times> snapshot) list"

subsection \<open>Constants\<close>

definition SYMBOLS :: "(string \<times> string) list" where
  "SYMBOLS = [(''nasdaq'', ''^NDX''), (''sp500'', ''^GSPC''), (''vix'', ''^VIX'')]"

definition CRASH_THRESHOLD_MAJOR :: real where
  "CRASH_THRESHOLD_MAJOR = - 20"

definition CRASH_THRESHOLD_MINOR :: real where
  "CRASH_THRESHOLD_MINOR = - 15"

definition VIX_THRESHOLD :: real where
  "VIX_THRESHOLD = 30"

definition LOOKBACK_DAYS :: nat where
  "LOOKBACK_DAYS = 252"

text \<open>
  The two trigger descriptions are f-strings over the constants only, so they are
  constant texts: \<^verbatim>\<open>-20.0\<close>, \<^verbatim>\<open>-15.0\<close> and \<^verbatim>\<open>30.0\<close> are how Python prints the
  three thresholds. \<open>text_52w_high\<close> is the phrase of the first description that says
  "against the 52-week high".
\<close>

definition bytes :: "nat list \<Rightarrow> string" where
  "bytes ns = map char_of ns"

definition text_52w_high :: string where
  "text_52w_high =
     ''52'' @ bytes [0xE9, 0x80, 0xB1, 0xE9, 0xAB, 0x98, 0xE5, 0x80, 0xA4, 0xE6, 0xAF, 0x94]"

definition trigger_major :: string where
  "trigger_major =
     ''NASDAQ100 '' @ bytes [0xE3, 0x81, 0x8C] @ '' 52'' @
     bytes [0xE9, 0x80, 0xB1, 0xE9, 0xAB, 0x98, 0xE5, 0x80, 0xA4, 0xE6, 0xAF, 0x94] @
     '' -20.0% '' @
     bytes [0xE3, 0x82, 0x92, 0xE8, 0xB6, 0x85, 0xE3, 0x81, 0x88, 0xE3, 0x82, 0x8B, 0xE4,
       0xB8, 0x8B, 0xE8, 0x90, 0xBD, 0xE3, 0x81, 0xAB, 0xE7, 0xAA, 0x81, 0xE5, 0x85, 0xA5,
       0xE3, 0x81, 0x97, 0xE3, 0x81, 0xBE, 0xE3, 0x81, 0x97, 0xE3, 0x81, 0x9F, 0xE3, 0x80,
       0x82]"

definition trigger_minor :: string where
  "trigger_minor =
     ''NASDAQ100 '' @ bytes [0xE3, 0x81, 0x8C] @ '' -15.0% '' @
     bytes [0xE4, 0xB8, 0x8B, 0xE8, 0x90, 0xBD, 0xE3, 0x80, 0x81, 0xE3, 0x81, 0x8B, 0xE3,
       0x81, 0xA4] @
     '' VIX'' @ bytes [0xE6, 0x8C, 0x87, 0xE6, 0x95, 0xB0, 0xE3, 0x81, 0x8C] @ '' 30.0 '' @
     bytes [0xE3, 0x82, 0x92, 0xE8, 0xB6, 0x85, 0xE3, 0x81, 0x88, 0xE3, 0x81, 0xBE, 0xE3,
       0x81, 0x97, 0xE3, 0x81, 0x9F, 0xE3, 0x80, 0x82]"

section \<open>The market data fetcher\<close>

text \<open>
  \<^verbatim>\<open>yf.Ticker(symbol).history(...)\<close> is the only input of the fetcher. It is a
  parameter of the model: for each symbol it either raises (any exception of the
  \<^verbatim>\<open>try\<close> block, which the loop catches) or yields the daily bars, oldest first, of
  which the fetcher reads the columns \<^verbatim>\<open>Close\<close> and \<^verbatim>\<open>High\<close>.
\<close>

record bar =
  bar_close :: real
  bar_high :: real

datatype history = Failed | History "bar list"

text \<open>
  The values that \<^verbatim>\<open>json.load\<close> yields and \<^verbatim>\<open>json.dump\<close> accepts: the state record
  and the webhook payload are such values.
\<close>

datatype json = JNull | JBool bool | JInt int | JFloat real | JNaN | JInfinity | JNegInfinity
  | JStr string | JArr "json list" | JObj "(string \<times> json) list"

text \<open>What the run does to the outside world: a history request, or a POST of a JSON payload.\<close>

datatype event = Download string | HttpPost string json

text \<open>
  \<^verbatim>\<open>round(x, 2)\<close> on a numpy float scales by 100, rounds to the nearest integer with
  ties to the even one, and scales back.
\<close>

definition round_half_even :: "real \<Rightarrow> int" where
  "round_half_even x =
     (let f = \<lfloor>x\<rfloor>; d = x - of_int f
      in if d < 1 / 2 then f else if 1 / 2 < d then f + 1 else if even f then f else f + 1)"

definition py_round :: "real \<Rightarrow> nat \<Rightarrow> real" where
  "py_round x ndigits = of_int (round_half_even (x * 10 ^ ndigits)) / 10 ^ ndigits"

definition list_max :: "real list \<Rightarrow> real" where
  "list_max xs = fold max (tl xs) (hd xs)"

text \<open>
  The 52-week high of lines 73 to 77 and the drawdown of line 80, before rounding. A
  zero high, on which numpy divides to an infinity or NaN, is outside the model.
\<close>

definition high_52w_of :: "bar list \<Rightarrow> real" where
  "high_52w_of hist =
     (if length hist \<ge> LOOKBACK_DAYS
      then list_max (map bar_high (drop (length hist - LOOKBACK_DAYS) hist))
      else list_max (map bar_high hist))"

definition drawdown_of :: "real \<Rightarrow> real \<Rightarrow> real" where
  "drawdown_of current_price high_52w = ((current_price - high_52w) / high_52w) * 100"

text \<open>The body of the loop for one entry of \<open>SYMBOLS\<close>; \<open>None\<close> is \<^verbatim>\<open>continue\<close>.\<close>

definition fetch_symbol :: "(string \<Rightarrow> history) \<Rightarrow> string \<Rightarrow> string \<Rightarrow> snapshot option" where
  "fetch_symbol yf name symbol =
     (case yf symbol of
        Failed \<Rightarrow> None
      | History hist \<Rightarrow>
          if hist = [] then None
          else
            let current_price = bar_close (last hist) in
            if name = ''vix'' then
              Some [(''symbol'', Str symbol),
                    (''current'', Num (py_round current_price 2)),
                    (''value'', Num (py_round current_price 2))]
            else
              let high_52w = high_52w_of hist;
                  drawdown = drawdown_of current_price high_52w
              in Some [(''symbol'', Str symbol),
                       (''current'', Num (py_round current_price 2)),
                       (''high_52w'', Num (py_round high_52w 2)),
                       (''drawdown'', Num (py_round drawdown 2))])"

definition get_market_data :: "(string \<Rightarrow> history) \<Rightarrow> market_data \<times> event list" where
  "get_market_data yf =
     fold (\<lambda>(name, symbol) (result, evs).
             (case fetch_symbol yf name symbol of
                None \<Rightarrow> result
              | Some entry \<Rightarrow> AList.update name entry result,
              evs @ [Download symbol]))
          SYMBOLS ([], [])"

section \<open>The crash evaluator\<close>

text \<open>
  \<^verbatim>\<open>data['nasdaq']['drawdown']\<close> raises \<^verbatim>\<open>KeyError\<close> on a missing field, and a
  comparison of a \<^verbatim>\<open>str\<close> against a \<^verbatim>\<open>float\<close> raises \<^verbatim>\<open>TypeError\<close>.
\<close>

definition bind_err :: "'e + 'a \<Rightarrow> ('a \<Rightarrow> 'e + 'b) \<Rightarrow> 'e + 'b" where
  "bind_err m f = (case m of Inl e \<Rightarrow> Inl e | Inr x \<Rightarrow> f x)"

definition subscript :: "(string \<times> 'v) list \<Rightarrow> string \<Rightarrow> py_error + 'v" where
  "subscript d k = (case map_of d k of None \<Rightarrow> Inl (KeyError k) | Some v \<Rightarrow> Inr v)"

definition py_le :: "pyval \<Rightarrow> real \<Rightarrow> py_error + bool" where
  "py_le v c = (case v of Num x \<Rightarrow> Inr (x \<le> c) | Str _ \<Rightarrow> Inl TypeError)"

definition py_ge :: "pyval \<Rightarrow> real \<Rightarrow> py_error + bool" where
  "py_ge v c = (case v of Num x \<Rightarrow> Inr (x \<ge> c) | Str _ \<Rightarrow> Inl TypeError)"

definition check_crash_condition :: "market_data \<Rightarrow> py_error + (bool \<times> string option)" where
  "check_crash_condition data =
     (if map_of data ''nasdaq'' = None \<or> map_of data ''vix'' = None then Inr (False, None)
      else
        bind_err (subscript data ''nasdaq'') (\<lambda>nasdaq.
        bind_err (subscript nasdaq ''drawdown'') (\<lambda>nasdaq_drawdown.
        bind_err (subscript data ''vix'') (\<lambda>vix.
        bind_err (subscript vix ''value'') (\<lambda>vix_value.
        bind_err (py_le nasdaq_drawdown CRASH_THRESHOLD_MAJOR) (\<lambda>major.
          if major then Inr (True, Some trigger_major)
          else
            bind_err (py_le nasdaq_drawdown CRASH_THRESHOLD_MINOR) (\<lambda>minor.
              if \<not> minor then Inr (False, None)
              else
                bind_err (py_ge vix_value VIX_THRESHOLD) (\<lambda>fear.
                  if fear then Inr (True, Some trigger_minor)
                  else Inr (False, None)))))))))"

section \<open>JSON text\<close>

text \<open>
  The state store goes through \<^verbatim>\<open>json.dump(state, f, ensure_ascii=False, indent=2)\<close>
  and \<^verbatim>\<open>json.load(f)\<close> of the standard library. Both are modelled on texts: the
  encoder as the library prints with an indent of two, the decoder as the grammar the
  library accepts (whitespace is space, tab, line feed and carriage return; strings are
  strict about control characters; \<^verbatim>\<open>NaN\<close>, \<^verbatim>\<open>Infinity\<close> and \<^verbatim>\<open>-Infinity\<close> are
  accepted). A number with a fraction or an exponent is a float and carries the exact
  value of its literal. How a float prints is a parameter, \<open>float_str\<close>. The limits of
  the interpreter (recursion depth, digits of an integer) are not modelled.
\<close>

subsection \<open>Encoding\<close>

definition hexdigit :: "nat \<Rightarrow> char" where
  "hexdigit n = ''0123456789abcdef'' ! n"

definition escape_char :: "char \<Rightarrow> string" where
  "escape_char c =
     (if c = CHR 0x22 then [CHR 0x5C, CHR 0x22]
      else if c = CHR 0x5C then [CHR 0x5C, CHR 0x5C]
      else if c = CHR 0x0A then [CHR 0x5C, CHR ''n'']
      else if c = CHR 0x0D then [CHR 0x5C, CHR ''r'']
      else if c = CHR 0x09 then [CHR 0x5C, CHR ''t'']
      else if c = CHR 0x08 then [CHR 0x5C, CHR ''b'']
      else if c = CHR 0x0C then [CHR 0x5C, CHR ''f'']
      else if (of_char c :: nat) < 0x20 then
        [CHR 0x5C, CHR ''u'', CHR ''0'', CHR ''0'',
         hexdigit ((of_char c :: nat) div 16), hexdigit ((of_char c :: nat) mod 16)]
      else [c])"

definition encode_basestring :: "string \<Rightarrow> string" where
  "encode_basestring s = CHR 0x22 # concat (map escape_char s) @ [CHR 0x22]"

function show_nat :: "nat \<Rightarrow> string" where
  "show_nat n =
     (if n < 10 then [hexdigit n] else show_nat (n div 10) @ [hexdigit (n mod 10)])"
  by pat_completeness auto
termination
  by (relation "measure id") auto

definition show_int :: "int \<Rightarrow> string" where
  "show_int i = (if i < 0 then CHR ''-'' # show_nat (nat (- i)) else show_nat (nat i))"

definition newline_indent :: "nat \<Rightarrow> string" where
  "newline_indent level = CHR 0x0A # replicate (2 * level) CHR '' ''"

fun join_with :: "string \<Rightarrow> string list \<Rightarrow> string" where
  "join_with sep [] = []"
| "join_with sep [x] = x"
| "join_with sep (x # y # ys) = x @ sep @ join_with sep (y # ys)"

fun json_encode :: "(real \<Rightarrow> string) \<Rightarrow> nat \<Rightarrow> json \<Rightarrow> string" where
  "json_encode float_str level JNull = ''null''"
| "json_encode float_str level (JBool b) = (if b then ''true'' else ''false'')"
| "json_encode float_str level (JInt i) = show_int i"
| "json_encode float_str level (JFloat x) = float_str x"
| "json_encode float_str level JNaN = ''NaN''"
| "json_encode float_str level JInfinity = ''Infinity''"
| "json_encode float_str level JNegInfinity = ''-Infinity''"
| "json_encode float_str level (JStr s) = encode_basestring s"
| "json_encode float_str level (JArr xs) =
     (if xs = [] then ''[]''
      else ''['' @ newline_indent (Suc level) @
           join_with ('','' @ newline_indent (Suc level))
             (map (json_encode float_str (Suc level)) xs) @
           newline_indent level @ '']'')"
| "json_encode float_str level (JObj kvs) =
     (if kvs = [] then ''{}''
      else ''{'' @ newline_indent (Suc level) @
           join_with ('','' @ newline_indent (Suc level))
             (map (\<lambda>kv. encode_basestring (fst kv) @ '': '' @
                         json_encode float_str (Suc level) (snd kv)) kvs) @
           newline_indent level @ ''}'')"

definition json_dumps :: "(real \<Rightarrow> string) \<Rightarrow> json \<Rightarrow> string" where
  "json_dumps float_str v = json_encode float_str 0 v"

subsection \<open>Decoding\<close>

definition is_ws :: "char \<Rightarrow> bool" where
  "is_ws c = (c = CHR '' '' \<or> c = CHR 0x09 \<or> c = CHR 0x0A \<or> c = CHR 0x0D)"

definition skip_ws :: "string \<Rightarrow> string" where
  "skip_ws s = dropWhile is_ws s"

definition is_digit :: "char \<Rightarrow> bool" where
  "is_digit c = (48 \<le> (of_char c :: nat) \<and> (of_char c :: nat) \<le> 57)"

definition digit_val :: "char \<Rightarrow> nat" where
  "digit_val c = of_char c - 48"

definition nat_of_digits :: "string \<Rightarrow> nat" where
  "nat_of_digits ds = foldl (\<lambda>a c. 10 * a + digit_val c) 0 ds"

definition hexval :: "char \<Rightarrow> nat option" where
  "hexval c =
     (let n = (of_char c :: nat)
      in if 48 \<le> n \<and> n \<le> 57 then Some (n - 48)
         else if 97 \<le> n \<and> n \<le> 102 then Some (n - 87)
         else if 65 \<le> n \<and> n \<le> 70 then Some (n - 55)
         else None)"

definition hex4 :: "char \<Rightarrow> char \<Rightarrow> char \<Rightarrow> char \<Rightarrow> nat option" where
  "hex4 a b c d =
     (case (hexval a, hexval b, hexval c, hexval d) of
        (Some w, Some x, Some y, Some z) \<Rightarrow> Some (((w * 16 + x) * 16 + y) * 16 + z)
      | _ \<Rightarrow> None)"

text \<open>
  A decoded code point is stored as its UTF-8 bytes (a lone surrogate, which a Python
  string can hold, as the three bytes of the same scheme).
\<close>

definition utf8_encode :: "nat \<Rightarrow> string" where
  "utf8_encode n =
     (if n < 0x80 then [char_of n]
      else if n < 0x800 then [char_of (0xC0 + n div 64), char_of (0x80 + n mod 64)]
      else if n < 0x10000 then
        [char_of (0xE0 + n div 4096), char_of (0x80 + (n div 64) mod 64),
         char_of (0x80 + n mod 64)]
      else
        [char_of (0xF0 + n div 262144), char_of (0x80 + (n div 4096) mod 64),
         char_of (0x80 + (n div 64) mod 64), char_of (0x80 + n mod 64)])"

definition unescape :: "char \<Rightarrow> char option" where
  "unescape e =
     (if e = CHR 0x22 then Some (CHR 0x22)
      else if e = CHR 0x5C then Some (CHR 0x5C)
      else if e = CHR ''/'' then Some (CHR ''/'')
      else if e = CHR ''b'' then Some (CHR 0x08)
      else if e = CHR ''f'' then Some (CHR 0x0C)
      else if e = CHR ''n'' then Some (CHR 0x0A)
      else if e = CHR ''r'' then Some (CHR 0x0D)
      else if e = CHR ''t'' then Some (CHR 0x09)
      else None)"

definition prepend :: "string \<Rightarrow> (string \<times> string) option \<Rightarrow> (string \<times> string) option" where
  "prepend bs r = (case r of None \<Rightarrow> None | Some (s, rest) \<Rightarrow> Some (bs @ s, rest))"

text \<open>
  \<open>scanstring\<close> reads a string body after its opening quote and returns the decoded
  string and the text after the closing quote.
\<close>

fun scanstring :: "string \<Rightarrow> (string \<times> string) option" where
  "scanstring [] = None"
| "scanstring (c # cs) =
     (if c = CHR 0x22 then Some ([], cs)
      else if c = CHR 0x5C then
        (case cs of
           [] \<Rightarrow> None
         | e # r \<Rightarrow>
             if e = CHR ''u'' then
               (case r of
                  h1 # h2 # h3 # h4 # r1 \<Rightarrow>
                    (case hex4 h1 h2 h3 h4 of
                       None \<Rightarrow> None
                     | Some uni \<Rightarrow>
                         (case r1 of
                            b # u # g1 # g2 # g3 # g4 # r2 \<Rightarrow>
                              if 0xD800 \<le> uni \<and> uni \<le> 0xDBFF \<and> b = CHR 0x5C \<and> u = CHR ''u'' then
                                (case hex4 g1 g2 g3 g4 of
                                   None \<Rightarrow> None
                                 | Some uni2 \<Rightarrow>
                                     if 0xDC00 \<le> uni2 \<and> uni2 \<le> 0xDFFF then
                                       prepend
                                         (utf8_encode
                                            (0x10000 + (uni - 0xD800) * 1024 + (uni2 - 0xDC00)))
                                         (scanstring r2)
                                     else prepend (utf8_encode uni) (scanstring r1))
                              else prepend (utf8_encode uni) (scanstring r1)
                          | _ \<Rightarrow> prepend (utf8_encode uni) (scanstring r1)))
                | _ \<Rightarrow> None)
             else
               (case unescape e of
                  None \<Rightarrow> None
                | Some ch \<Rightarrow> prepend [ch] (scanstring r)))
      else if (of_char c :: nat) < 0x20 then None
      else prepend [c] (scanstring cs))"

text \<open>
  A number is \<^verbatim>\<open>-?(0|[1-9][0-9]*)(\.[0-9]+)?([eE][-+]?[0-9]+)?\<close>, matched greedily.
  \<open>match_exponent\<close> and \<open>match_fraction\<close> return the digits they matched (none when
  the part is absent) and the text left.
\<close>

definition match_fraction :: "string \<Rightarrow> string \<times> string" where
  "match_fraction s =
     (case s of
        p # d # r \<Rightarrow>
          if p = CHR ''.'' \<and> is_digit d
          then (takeWhile is_digit (d # r), dropWhile is_digit (d # r))
          else ([], s)
      | _ \<Rightarrow> ([], s))"

definition match_exponent :: "string \<Rightarrow> (bool \<times> string) option \<times> string" where
  "match_exponent s =
     (case s of
        e # r \<Rightarrow>
          if e = CHR ''e'' \<or> e = CHR ''E'' then
            (case r of
               [] \<Rightarrow> (None, s)
             | g # r' \<Rightarrow>
                 if is_digit g then
                   (Some (False, takeWhile is_digit r), dropWhile is_digit r)
                 else if g = CHR ''+'' \<or> g = CHR ''-'' then
                   (case r' of
                      [] \<Rightarrow> (None, s)
                    | d # _ \<Rightarrow>
                        if is_digit d
                        then (Some (g = CHR ''-'', takeWhile is_digit r'), dropWhile is_digit r')
                        else (None, s))
                 else (None, s))
          else (None, s)
      | [] \<Rightarrow> (None, s))"

definition float_of_literal :: "bool \<Rightarrow> string \<Rightarrow> string \<Rightarrow> (bool \<times> string) option \<Rightarrow> real" where
  "float_of_literal neg ip fr ex =
     (let m = of_nat (nat_of_digits ip) + of_nat (nat_of_digits fr) / 10 ^ length fr;
          scaled = (case ex of
                      None \<Rightarrow> m
                    | Some (eneg, ds) \<Rightarrow>
                        if eneg then m / 10 ^ nat_of_digits ds else m * 10 ^ nat_of_digits ds)
      in if neg then - scaled else scaled)"

definition match_number :: "string \<Rightarrow> (json \<times> string) option" where
  "match_number s =
     (let neg = (case s of [] \<Rightarrow> False | c # _ \<Rightarrow> c = CHR ''-'');
          s1 = (if neg then tl s else s)
      in case s1 of
           [] \<Rightarrow> None
         | d # r \<Rightarrow>
             if \<not> is_digit d then None
             else
               let ip = (if d = CHR ''0'' then [d] else takeWhile is_digit s1);
                   r1 = (if d = CHR ''0'' then r else dropWhile is_digit s1);
                   (fr, r2) = match_fraction r1;
                   (ex, r3) = match_exponent r2
               in if fr = [] \<and> ex = None
                  then Some (JInt (if neg then - int (nat_of_digits ip)
                                   else int (nat_of_digits ip)), r3)
                  else Some (JFloat (float_of_literal neg ip fr ex), r3))"

definition match_literal :: "string \<Rightarrow> json \<Rightarrow> string \<Rightarrow> (json \<times> string) option" where
  "match_literal lit v s = (if prefix lit s then Some (v, drop (length lit) s) else None)"

text \<open>\<^verbatim>\<open>dict(pairs)\<close>: a repeated key keeps its first position and its last value.\<close>

definition dict_of_pairs :: "(string \<times> json) list \<Rightarrow> (string \<times> json) list" where
  "dict_of_pairs ps = fold (\<lambda>(k, v) d. AList.update k v d) ps []"

text \<open>
  The recursive descent of the scanner. The first argument bounds the number of nested
  calls, so that the definition is total; \<open>json_loads\<close> starts it at twice the length
  of the text plus one, which the lemmas below show to be enough for every record the
  program writes. \<open>parse_elements\<close> starts at the first value of a non-empty array,
  \<open>parse_members\<close> at the opening quote of the first key of a non-empty object.
\<close>

fun parse_value :: "nat \<Rightarrow> string \<Rightarrow> (json \<times> string) option"
  and parse_elements :: "nat \<Rightarrow> string \<Rightarrow> (json list \<times> string) option"
  and parse_members :: "nat \<Rightarrow> string \<Rightarrow> ((string \<times> json) list \<times> string) option"
where
  "parse_value 0 s = None"
| "parse_value (Suc n) s =
     (case s of
        [] \<Rightarrow> None
      | c # r \<Rightarrow>
          if c = CHR 0x22 then
            (case scanstring r of None \<Rightarrow> None | Some (t, rest) \<Rightarrow> Some (JStr t, rest))
          else if c = CHR ''{'' then
            (case skip_ws r of
               [] \<Rightarrow> None
             | c' # r' \<Rightarrow>
                 if c' = CHR ''}'' then Some (JObj [], r')
                 else
                   (case parse_members n (c' # r') of
                      None \<Rightarrow> None
                    | Some (ps, rest) \<Rightarrow> Some (JObj (dict_of_pairs ps), rest)))
          else if c = CHR ''['' then
            (case skip_ws r of
               [] \<Rightarrow> None
             | c' # r' \<Rightarrow>
                 if c' = CHR '']'' then Some (JArr [], r')
                 else
                   (case parse_elements n (c' # r') of
                      None \<Rightarrow> None
                    | Some (vs, rest) \<Rightarrow> Some (JArr vs, rest)))
          else if prefix ''null'' s then match_literal ''null'' JNull s
          else if prefix ''true'' s then match_literal ''true'' (JBool True) s
          else if prefix ''false'' s then match_literal ''false'' (JBool False) s
          else
            (case match_number s of
               Some res \<Rightarrow> Some res
             | None \<Rightarrow>
                 if prefix ''NaN'' s then match_literal ''NaN'' JNaN s
                 else if prefix ''Infinity'' s then match_literal ''Infinity'' JInfinity s
                 else match_literal ''-Infinity'' JNegInfinity s))"
| "parse_elements 0 s = None"
| "parse_elements (Suc n) s =
     (case parse_value n s of
        None \<Rightarrow> None
      | Some (v, r) \<Rightarrow>
          (case skip_ws r of
             [] \<Rightarrow> None
           | c # r' \<Rightarrow>
               if c = CHR '']'' then Some ([v], r')
               else if c = CHR '','' then
                 (case parse_elements n (skip_ws r') of
                    None \<Rightarrow> None
                  | Some (vs, rest) \<Rightarrow> Some (v # vs, rest))
               else None))"
| "parse_members 0 s = None"
| "parse_members (Suc n) s =
     (case s of
        [] \<Rightarrow> None
      | q # r \<Rightarrow>
          if q \<noteq> CHR 0x22 then None
          else
            (case scanstring r of
               None \<Rightarrow> None
             | Some (k, r1) \<Rightarrow>
                 (case skip_ws r1 of
                    [] \<Rightarrow> None
                  | colon # r2 \<Rightarrow>
                      if colon \<noteq> CHR '':'' then None
                      else
                        (case parse_value n (skip_ws r2) of
                           None \<Rightarrow> None
                         | Some (v, r3) \<Rightarrow>
                             (case skip_ws r3 of
                                [] \<Rightarrow> None
                              | c # r4 \<Rightarrow>
                                  if c = CHR ''}'' then Some ([(k, v)], r4)
                                  else if c = CHR '','' then
                                    (case parse_members n (skip_ws r4) of
                                       None \<Rightarrow> None
                                     | Some (ps, rest) \<Rightarrow> Some ((k, v) # ps, rest))
                                  else None)))))"

definition json_loads :: "string \<Rightarrow> json option" where
  "json_loads s =
     (case parse_value (Suc (2 * length s)) (skip_ws s) of
        None \<Rightarrow> None
      | Some (v, rest) \<Rightarrow> if skip_ws rest = [] then Some v else None)"

text \<open>
  The values the program itself stores in a state record: \<^verbatim>\<open>None\<close>, a \<^verbatim>\<open>bool\<close> or a
  \<^verbatim>\<open>str\<close>. A flat record is a dictionary of such values; the documented state is the
  flat record with the three documented fields.
\<close>

definition scalar :: "json \<Rightarrow> bool" where
  "scalar v = (case v of JNull \<Rightarrow> True | JBool _ \<Rightarrow> True | JStr _ \<Rightarrow> True | _ \<Rightarrow> False)"

definition flat_record :: "json \<Rightarrow> bool" where
  "flat_record st =
     (case st of
        JObj kvs \<Rightarrow> distinct (map fst kvs) \<and> list_all (\<lambda>kv. scalar (snd kv)) kvs
      | _ \<Rightarrow> False)"

definition is_bool :: "json option \<Rightarrow> bool" where
  "is_bool v = (case v of Some (JBool _) \<Rightarrow> True | _ \<Rightarrow> False)"

definition is_str_or_null :: "json option \<Rightarrow> bool" where
  "is_str_or_null v = (case v of Some JNull \<Rightarrow> True | Some (JStr _) \<Rightarrow> True | _ \<Rightarrow> False)"

definition documented_state :: "json \<Rightarrow> bool" where
  "documented_state st =
     (case st of
        JObj kvs \<Rightarrow>
          distinct (map fst kvs) \<and>
          set (map fst kvs) = {''is_crash'', ''first_detected'', ''last_checked''} \<and>
          is_bool (map_of kvs ''is_crash'') \<and>
          is_str_or_null (map_of kvs ''first_detected'') \<and>
          is_str_or_null (map_of kvs ''last_checked'')
      | _ \<Rightarrow> False)"

section \<open>The state store\<close>

text \<open>
  The file \<^verbatim>\<open>state.json\<close> is absent, or exists but cannot be opened or decoded as
  text (then \<^verbatim>\<open>open\<close> or the read inside \<^verbatim>\<open>json.load\<close> raises), or holds a text.
  Opening it for writing fails when it is not writable. Both functions catch every
  exception, so neither has an error result.
\<close>

datatype file_contents = Absent | Unreadable | Text string

record filesystem =
  state_file :: file_contents
  writable :: bool

definition default_state :: json where
  "default_state =
     JObj [(''is_crash'', JBool False), (''first_detected'', JNull), (''last_checked'', JNull)]"

definition load_state :: "filesystem \<Rightarrow> json" where
  "load_state fs =
     (case state_file fs of
        Absent \<Rightarrow> default_state
      | Unreadable \<Rightarrow> default_state
      | Text s \<Rightarrow> (case json_loads s of None \<Rightarrow> default_state | Some v \<Rightarrow> v))"

definition save_state :: "(real \<Rightarrow> string) \<Rightarrow> json \<Rightarrow> filesystem \<Rightarrow> filesystem" where
  "save_state float_str state fs =
     (if writable fs then fs\<lparr>state_file := Text (json_dumps float_str state)\<rparr> else fs)"

section \<open>The notifier\<close>

definition initial_text_0 :: string where
  "initial_text_0 =
     bytes [0xE3, 0x80, 0x90, 0xE7, 0xB1, 0xB3, 0xE5, 0x9B, 0xBD, 0xE6, 0xA0, 0xAA, 0xE5,
       0xBC, 0x8F, 0xE5, 0xB8, 0x82, 0xE5, 0xA0, 0xB4, 0xE3, 0x83, 0xBB, 0xE6, 0x9A, 0xB4,
       0xE8, 0x90, 0xBD, 0xE7, 0x9B, 0xA3, 0xE8, 0xA6, 0x96, 0xE3, 0x83, 0xAC, 0xE3, 0x83,
       0x9D, 0xE3, 0x83, 0xBC, 0xE3, 0x83, 0x88, 0xE3, 0x80, 0x91, 0x0A, 0x0A, 0xE2, 0x96,
       0xA0, 0x20, 0xE5, 0xB8, 0x82, 0xE5, 0xA0, 0xB4, 0xE7, 0x8A, 0xB6, 0xE6, 0x85, 0x8B,
       0x0A, 0xF0, 0x9F, 0x92, 0xA5, 0x20, 0xE6, 0x8A, 0x95, 0xE5, 0x85, 0xA5, 0xE6, 0xA4,
       0x9C, 0xE8, 0xA8, 0x8E, 0x0A, 0x0A, 0xE2, 0x96, 0xA0, 0x20, 0xE5, 0x88, 0x9D, 0xE5,
       0x9B, 0x9E, 0xE6, 0xA4, 0x9C, 0xE7, 0x9F, 0xA5, 0xE3, 0x83, 0x88, 0xE3, 0x83, 0xAA,
       0xE3, 0x82, 0xAC, 0xE3, 0x83, 0xBC, 0x0A]"

definition initial_text_1 :: string where
  "initial_text_1 =
     bytes [0x0A, 0x0A, 0xE2, 0x96, 0xA0, 0x20, 0xE5, 0xB8, 0x82, 0xE5, 0xA0, 0xB4, 0xE3,
       0x83, 0x87, 0xE3, 0x83, 0xBC, 0xE3, 0x82, 0xBF, 0x0A] @ ''NASDAQ100: ''"

definition initial_text_2 :: string where
  "initial_text_2 = ''%)'' @ bytes [0x0A] @ ''S&P500: ''"

definition initial_text_3 :: string where
  "initial_text_3 =
     ''%)'' @ bytes [0x0A] @ ''VIX'' @ bytes [0xE6, 0x8C, 0x87, 0xE6, 0x95, 0xB0] @ '': ''"

definition initial_text_4 :: string where
  "initial_text_4 =
     bytes [0x0A, 0x0A, 0xE2, 0x96, 0xA0, 0x20, 0xE8, 0xA3, 0x9C, 0xE8, 0xB6, 0xB3, 0x0A,
       0xE4, 0xBE, 0xA1, 0xE6, 0xA0, 0xBC, 0xE4, 0xB8, 0x8B, 0xE8, 0x90, 0xBD, 0xE3, 0x81,
       0xA8, 0xE5, 0xB8, 0x82, 0xE5, 0xA0, 0xB4, 0xE5, 0xBF, 0x83, 0xE7, 0x90, 0x86, 0xE3,
       0x81, 0xAE, 0xE6, 0x82, 0xAA, 0xE5, 0x8C, 0x96, 0xE3, 0x81, 0x8C, 0xE5, 0x90, 0x8C,
       0xE6, 0x99, 0x82, 0xE3, 0x81, 0xAB, 0xE7, 0x99, 0xBA, 0xE7, 0x94, 0x9F, 0xE3, 0x81,
       0x97, 0xE3, 0x81, 0xA6, 0xE3, 0x81, 0x84, 0xE3, 0x81, 0xBE, 0xE3, 0x81, 0x99, 0xE3,
       0x80, 0x82]"

definition continuation_text_0 :: string where
  "continuation_text_0 =
     bytes [0xE3, 0x80, 0x90, 0xE7, 0xB1, 0xB3, 0xE5, 0x9B, 0xBD, 0xE6, 0xA0, 0xAA, 0xE5,
       0xBC, 0x8F, 0xE5, 0xB8, 0x82, 0xE5, 0xA0, 0xB4, 0xE3, 0x83, 0xBB, 0xE6, 0x9A, 0xB4,
       0xE8, 0x90, 0xBD, 0xE7, 0x9B, 0xA3, 0xE8, 0xA6, 0x96, 0xE3, 0x83, 0xAC, 0xE3, 0x83,
       0x9D, 0xE3, 0x83, 0xBC, 0xE3, 0x83, 0x88, 0xE3, 0x80, 0x91, 0x0A, 0x0A, 0xE2, 0x96,
       0xA0, 0x20, 0xE5, 0xB8, 0x82, 0xE5, 0xA0, 0xB4, 0xE7, 0x8A, 0xB6, 0xE6, 0x85, 0x8B,
       0x0A, 0xE2, 0x9A, 0xA0, 0xEF, 0xB8, 0x8F, 0x20, 0xE6, 0x8A, 0x95, 0xE5, 0x85, 0xA5,
       0xE6, 0xA4, 0x9C, 0xE8, 0xA8, 0x8E, 0xEF, 0xBC, 0x88, 0xE7, 0xB6, 0x99, 0xE7, 0xB6,
       0x9A, 0xE4, 0xB8, 0xAD, 0xEF, 0xBC, 0x89, 0x0A, 0x0A] @ ''NASDAQ100 ''"

text \<open>
  \<^verbatim>\<open>d.get(k, 'N/A')\<close> inside an f-string: the value as \<^verbatim>\<open>str\<close> prints it, or \<^verbatim>\<open>N/A\<close>.
  \<^verbatim>\<open>data.get(name, {})\<close> is the entry or the empty dictionary.
\<close>

definition py_str :: "(real \<Rightarrow> string) \<Rightarrow> pyval \<Rightarrow> string" where
  "py_str float_str v = (case v of Num x \<Rightarrow> float_str x | Str s \<Rightarrow> s)"

definition get_or_na :: "(real \<Rightarrow> string) \<Rightarrow> snapshot \<Rightarrow> string \<Rightarrow> string" where
  "get_or_na float_str d k = (case map_of d k of None \<Rightarrow> ''N/A'' | Some v \<Rightarrow> py_str float_str v)"

definition get_or_empty :: "market_data \<Rightarrow> string \<Rightarrow> snapshot" where
  "get_or_empty data name = (case map_of data name of None \<Rightarrow> [] | Some d \<Rightarrow> d)"

definition format_initial_alert :: "(real \<Rightarrow> string) \<Rightarrow> market_data \<Rightarrow> string option \<Rightarrow> string" where
  "format_initial_alert float_str data trigger =
     (let nasdaq = get_or_empty data ''nasdaq'';
          sp500 = get_or_empty data ''sp500'';
          vix = get_or_empty data ''vix''
      in initial_text_0 @ (case trigger of None \<Rightarrow> ''None'' | Some t \<Rightarrow> t) @
         initial_text_1 @ get_or_na float_str nasdaq ''current'' @ '' ('' @
         get_or_na float_str nasdaq ''drawdown'' @
         initial_text_2 @ get_or_na float_str sp500 ''current'' @ '' ('' @
         get_or_na float_str sp500 ''drawdown'' @
         initial_text_3 @ get_or_na float_str vix ''value'' @
         initial_text_4)"

definition format_continuation_alert :: "(real \<Rightarrow> string) \<Rightarrow> market_data \<Rightarrow> string" where
  "format_continuation_alert float_str data =
     (let nasdaq = get_or_empty data ''nasdaq'';
          sp500 = get_or_empty data ''sp500'';
          vix = get_or_empty data ''vix''
      in continuation_text_0 @ get_or_na float_str nasdaq ''drawdown'' @
         ''% / S&P500 '' @ get_or_na float_str sp500 ''drawdown'' @
         ''% / VIX '' @ get_or_na float_str vix ''value'')"

text \<open>
  \<^verbatim>\<open>send_slack_notification\<close> makes one call of \<^verbatim>\<open>requests.post\<close> and catches whatever
  it raises; the response only changes what is printed.
\<close>

definition slack_payload :: "string \<Rightarrow> json" where
  "slack_payload message =
     JObj [(''text'', JStr message), (''unfurl_links'', JBool False),
           (''unfurl_media'', JBool False)]"

definition send_slack_notification :: "string \<Rightarrow> string \<Rightarrow> event list" where
  "send_slack_notification message webhook_url =
     [HttpPost webhook_url (slack_payload message)]"

section \<open>The run\<close>

definition is_post :: "event \<Rightarrow> bool" where
  "is_post e = (case e of HttpPost _ _ \<Rightarrow> True | Download _ \<Rightarrow> False)"

text \<open>
  A run ends by falling off the end of \<^verbatim>\<open>main\<close>, by \<^verbatim>\<open>sys.exit\<close>, or by an exception
  that nothing catches. Its result is how it ended, what it did to the network, in
  order, and the file system it leaves. Console output is not modelled.

  The inputs of a run are the environment variables, the history service, the text of
  \<^verbatim>\<open>datetime.now().isoformat()\<close> at the state-machine step and the file system.
\<close>

datatype outcome = Completed | SysExit nat | Uncaught py_error

record run =
  outcome :: outcome
  trace :: "event list"
  files :: filesystem

definition exit_code :: "outcome \<Rightarrow> nat" where
  "exit_code out = (case out of Completed \<Rightarrow> 0 | SysExit n \<Rightarrow> n | Uncaught _ \<Rightarrow> 1)"

text \<open>The truth value Python gives a decoded JSON value.\<close>

definition truthy :: "json \<Rightarrow> bool" where
  "truthy v =
     (case v of
        JNull \<Rightarrow> False
      | JBool b \<Rightarrow> b
      | JInt i \<Rightarrow> i \<noteq> 0
      | JFloat x \<Rightarrow> x \<noteq> 0
      | JNaN \<Rightarrow> True
      | JInfinity \<Rightarrow> True
      | JNegInfinity \<Rightarrow> True
      | JStr s \<Rightarrow> s \<noteq> []
      | JArr xs \<Rightarrow> xs \<noteq> []
      | JObj kvs \<Rightarrow> kvs \<noteq> [])"

text \<open>
  \<^verbatim>\<open>prev_state.get(key, default)\<close>, \<^verbatim>\<open>prev_state.copy()\<close> and the item assignment
  exist on a dictionary only; on any other decoded value the attribute lookup raises.
\<close>

definition dict_get :: "json \<Rightarrow> string \<Rightarrow> json \<Rightarrow> py_error + json" where
  "dict_get d k dflt =
     (case d of
        JObj kvs \<Rightarrow> Inr (case map_of kvs k of None \<Rightarrow> dflt | Some v \<Rightarrow> v)
      | _ \<Rightarrow> Inl AttributeError)"

definition copy_with :: "json \<Rightarrow> string \<Rightarrow> json \<Rightarrow> py_error + json" where
  "copy_with d k v =
     (case d of
        JObj kvs \<Rightarrow> Inr (JObj (AList.update k v kvs))
      | _ \<Rightarrow> Inl AttributeError)"

definition main :: "(real \<Rightarrow> string) \<Rightarrow> (string \<times> string) list \<Rightarrow> (string \<Rightarrow> history) \<Rightarrow> string \<Rightarrow> filesystem \<Rightarrow> run" where
  "main float_str environ yf current_time fs =
     (case map_of environ ''SLACK_WEBHOOK_URL'' of
        None \<Rightarrow> \<lparr>outcome = SysExit 1, trace = [], files = fs\<rparr>
      | Some webhook_url \<Rightarrow>
          if webhook_url = [] then \<lparr>outcome = SysExit 1, trace = [], files = fs\<rparr>
          else
            let (data, fetched) = get_market_data yf in
            if data = [] then \<lparr>outcome = SysExit 1, trace = fetched, files = fs\<rparr>
            else
              (case check_crash_condition data of
                 Inl e \<Rightarrow> \<lparr>outcome = Uncaught e, trace = fetched, files = fs\<rparr>
               | Inr (is_crash, trigger) \<Rightarrow>
                   let prev_state = load_state fs in
                   (case dict_get prev_state ''is_crash'' (JBool False) of
                      Inl e \<Rightarrow> \<lparr>outcome = Uncaught e, trace = fetched, files = fs\<rparr>
                    | Inr prev_is_crash \<Rightarrow>
                        if is_crash then
                          if \<not> truthy prev_is_crash then
                            let message = format_initial_alert float_str data trigger;
                                sent = send_slack_notification message webhook_url;
                                new_state = JObj [(''is_crash'', JBool True),
                                                  (''first_detected'', JStr current_time),
                                                  (''last_checked'', JStr current_time)]
                            in \<lparr>outcome = Completed, trace = fetched @ sent,
                                files = save_state float_str new_state fs\<rparr>
                          else
                            let message = format_continuation_alert float_str data;
                                sent = send_slack_notification message webhook_url
                            in (case copy_with prev_state ''last_checked'' (JStr current_time) of
                                  Inl e \<Rightarrow> \<lparr>outcome = Uncaught e, trace = fetched @ sent,
                                             files = fs\<rparr>
                                | Inr new_state \<Rightarrow>
                                    \<lparr>outcome = Completed, trace = fetched @ sent,
                                     files = save_state float_str new_state fs\<rparr>)
                        else
                          let new_state = JObj [(''is_crash'', JBool False),
                                                (''first_detected'', JNull),
                                                (''last_checked'', JStr current_time)]
                          in \<lparr>outcome = Completed, trace = fetched,
                              files = save_state float_str new_state fs\<rparr>)))"

section \<open>Example inputs\<close>

text \<open>
  Two history services of one bar each. With a close of 79.998 under a high of 100 the
  drawdown is \<open>-20.002\<close>, with a close of 80.004 it is \<open>-19.996\<close>; the VIX is calm.
\<close>

definition yf_below_major :: "string \<Rightarrow> history" where
  "yf_below_major symbol =
     (if symbol = ''^VIX'' then History [\<lparr>bar_close = 18, bar_high = 19\<rparr>]
      else History [\<lparr>bar_close = 79.998, bar_high = 100\<rparr>])"

definition yf_above_major :: "string \<Rightarrow> history" where
  "yf_above_major symbol =
     (if symbol = ''^VIX'' then History [\<lparr>bar_close = 18, bar_high = 19\<rparr>]
      else History [\<lparr>bar_close = 80.004, bar_high = 100\<rparr>])"

definition yf_calm :: "string \<Rightarrow> history" where
  "yf_calm symbol =
     (if symbol = ''^VIX'' then History [\<lparr>bar_close = 18, bar_high = 19\<rparr>]
      else History [\<lparr>bar_close = 99, bar_high = 99.5\<rparr>, \<lparr>bar_close = 97, bar_high = 100\<rparr>])"

text \<open>
  Three state file texts: an object with one field only, the default record written
  out, and a text cut off in the middle.
\<close>

definition text_is_crash_only :: string where
  "text_is_crash_only = ''{'' @ [CHR 0x22] @ ''is_crash'' @ [CHR 0x22] @ '': true}''"

definition text_default_record :: string where
  "text_default_record =
     ''{'' @ [CHR 0x22] @ ''is_crash'' @ [CHR 0x22] @ '': false, '' @
     [CHR 0x22] @ ''first_detected'' @ [CHR 0x22] @ '': null, '' @
     [CHR 0x22] @ ''last_checked'' @ [CHR 0x22] @ '': null}''"

definition text_cut_off :: string where
  "text_cut_off = ''{'' @ [CHR 0x22] @ ''is_crash'' @ [CHR 0x22] @ '': tr''"

text \<open>
  A configured environment, a time stamp, a stand-in for the printing of floats, and
  three file systems: without a state file, with the state of a crash detected
  earlier, and with a state file that cannot be overwritten.
\<close>

definition environ_configured :: "(string \<times> string) list" where
  "environ_configured = [(''PATH'', ''/usr/bin''), (''SLACK_WEBHOOK_URL'', ''https://hooks.test/T0'')]"

definition now_example :: string where
  "now_example = ''2024-03-05T09:30:00.000123''"

definition float_str_example :: "real \<Rightarrow> string" where
  "float_str_example x = (if x < 0 then ''-x.x'' else ''x.x'')"

definition fs_fresh :: filesystem where
  "fs_fresh = \<lparr>state_file = Absent, writable = True\<rparr>"

definition fs_crashed :: filesystem where
  "fs_crashed =
     \<lparr>state_file = Text
        (''{'' @ [CHR 0x22] @ ''is_crash'' @ [CHR 0x22] @ '': true, '' @
         [CHR 0x22] @ ''first_detected'' @ [CHR 0x22] @ '': '' @
         [CHR 0x22] @ ''2024-03-01T09:30:00'' @ [CHR 0x22] @ '', '' @
         [CHR 0x22] @ ''last_checked'' @ [CHR 0x22] @ '': '' @
         [CHR 0x22] @ ''2024-03-04T09:30:00'' @ [CHR 0x22] @ '', '' @
         [CHR 0x22] @ ''note'' @ [CHR 0x22] @ '': [1, 2]}''),
      writable = True\<rparr>"

section \<open>Properties of the evaluator\<close>

lemma check_crash_condition_numeric:
  assumes "map_of data ''nasdaq'' = Some nasdaq" and "map_of data ''vix'' = Some vix"
    and "map_of nasdaq ''drawdown'' = Some (Num d)" and "map_of vix ''value'' = Some (Num v)"
  shows "check_crash_condition data =
     (if d \<le> - 20 then Inr (True, Some trigger_major)
      else if d \<le> - 15 \<and> v \<ge> 30 then Inr (True, Some trigger_minor)
      else Inr (False, None))"
  using assms
  by (simp add: check_crash_condition_def bind_err_def subscript_def py_le_def py_ge_def
      CRASH_THRESHOLD_MAJOR_def CRASH_THRESHOLD_MINOR_def VIX_THRESHOLD_def)

lemma check_crash_condition_major:
  assumes "map_of data ''nasdaq'' = Some nasdaq" and "map_of data ''vix'' = Some vix"
    and "map_of nasdaq ''drawdown'' = Some (Num d)" and "map_of vix ''value'' = Some x"
    and "d \<le> - 20"
  shows "check_crash_condition data = Inr (True, Some trigger_major)"
  using assms
  by (simp add: check_crash_condition_def bind_err_def subscript_def py_le_def
      CRASH_THRESHOLD_MAJOR_def)

lemma trigger_major_has_52w_high: "sublist text_52w_high trigger_major"
  unfolding sublist_def text_52w_high_def trigger_major_def
  apply (rule exI [of _ "''NASDAQ100 '' @ bytes [0xE3, 0x81, 0x8C] @ '' ''"])
  apply (rule exI [of _ "'' -20.0% '' @
     bytes [0xE3, 0x82, 0x92, 0xE8, 0xB6, 0x85, 0xE3, 0x81, 0x88, 0xE3, 0x82, 0x8B, 0xE4,
       0xB8, 0x8B, 0xE8, 0x90, 0xBD, 0xE3, 0x81, 0xAB, 0xE7, 0xAA, 0x81, 0xE5, 0x85, 0xA5,
       0xE3, 0x81, 0x97, 0xE3, 0x81, 0xBE, 0xE3, 0x81, 0x97, 0xE3, 0x81, 0x9F, 0xE3, 0x80,
       0x82]"])
  apply (simp only: append.simps append_assoc)
  done

lemma trigger_minor_lacks_52w_high: "\<not> sublist text_52w_high trigger_minor"
proof
  assume "sublist text_52w_high trigger_minor"
  then have "set text_52w_high \<subseteq> set trigger_minor"
    by (rule set_mono_sublist)
  moreover have "CHR ''2'' \<in> set text_52w_high"
    by (simp add: text_52w_high_def)
  ultimately have "CHR ''2'' \<in> set trigger_minor"
    by blast
  then show False
    by (simp add: trigger_minor_def bytes_def char_of_def)
qed

text \<open>
  Claim C1. For every market-data map that contains both the \<^verbatim>\<open>nasdaq\<close> and the
  \<^verbatim>\<open>vix\<close> entry, with the drawdown \<open>d\<close> and the VIX value \<open>v\<close>, the evaluator
  returns triggered = true if and only if \<open>d \<le> -20\<close>, or \<open>d \<le> -15\<close> and \<open>v \<ge> 30\<close>.
  So it triggers for every \<open>d \<le> -20\<close> whatever \<open>v\<close> is, for \<open>-20 < d \<le> -15\<close>
  exactly when \<open>v \<ge> 30\<close>, and never for \<open>d > -15\<close>.
\<close>

theorem evaluator_trigger_iff:
  assumes "map_of data ''nasdaq'' = Some nasdaq" and "map_of data ''vix'' = Some vix"
    and "map_of nasdaq ''drawdown'' = Some (Num d)" and "map_of vix ''value'' = Some (Num v)"
  shows "\<exists>desc. check_crash_condition data = Inr (d \<le> - 20 \<or> (d \<le> - 15 \<and> v \<ge> 30), desc)"
  using check_crash_condition_numeric [OF assms] by auto

theorem evaluator_trigger_iff_witness:
  "\<exists>desc. check_crash_condition
      [(''nasdaq'', [(''drawdown'', Num (- 16))]), (''vix'', [(''value'', Num 31)])]
    = Inr (True, desc)"
  using evaluator_trigger_iff
    [of "[(''nasdaq'', [(''drawdown'', Num (- 16))]), (''vix'', [(''value'', Num 31)])]"
      "[(''drawdown'', Num (- 16))]" "[(''value'', Num 31)]" "- 16" 31]
  by simp

text \<open>
  Claim C5, as stated, for every map whose drawdown is at most \<open>-20\<close>: it fails on a map
  without the \<^verbatim>\<open>vix\<close> entry, where the guard of line 106 answers first. Here the
  drawdown is \<open>-25\<close> and the evaluator does not trigger.
\<close>

theorem major_needs_vix_counterexample:
  "check_crash_condition
     [(''nasdaq'', [(''symbol'', Str ''^NDX''), (''current'', Num 75), (''high_52w'', Num 100),
                    (''drawdown'', Num (- 25))])]
   = Inr (False, None)
   \<and> (- 25 :: real) \<le> CRASH_THRESHOLD_MAJOR"
  by (simp add: check_crash_condition_def CRASH_THRESHOLD_MAJOR_def)

text \<open>
  Claim C5, amended. For every market-data map that contains both entries (the
  \<^verbatim>\<open>vix\<close> entry with a \<^verbatim>\<open>value\<close> field, of any value) and whose drawdown is at
  most \<open>-20\<close>, the evaluator returns the description of condition 1, the one that
  contains the phrase of \<open>text_52w_high\<close>, which the description of condition 2 does
  not contain. This holds also when condition 2 holds, since condition 1 is tested first.
\<close>

theorem major_condition_wins:
  assumes "map_of data ''nasdaq'' = Some nasdaq" and "map_of data ''vix'' = Some vix"
    and "map_of nasdaq ''drawdown'' = Some (Num d)" and "map_of vix ''value'' = Some x"
    and "d \<le> - 20"
  shows "check_crash_condition data = Inr (True, Some trigger_major)
    \<and> sublist text_52w_high trigger_major \<and> \<not> sublist text_52w_high trigger_minor"
  using check_crash_condition_major [OF assms]
    trigger_major_has_52w_high trigger_minor_lacks_52w_high
  by simp

theorem major_condition_wins_witness:
  "check_crash_condition
     [(''nasdaq'', [(''drawdown'', Num (- 22))]), (''vix'', [(''value'', Num 35)])]
   = Inr (True, Some trigger_major)
   \<and> sublist text_52w_high trigger_major \<and> \<not> sublist text_52w_high trigger_minor"
  using major_condition_wins
    [of "[(''nasdaq'', [(''drawdown'', Num (- 22))]), (''vix'', [(''value'', Num 35)])]"
      "[(''drawdown'', Num (- 22))]" "[(''value'', Num 35)]" "- 22" "Num 35"]
  by simp

text \<open>
  Claim C6. For every market-data map that lacks the \<^verbatim>\<open>nasdaq\<close> entry or lacks the
  \<^verbatim>\<open>vix\<close> entry, the evaluator returns (false, no description); no field is read and
  no threshold compared, so nothing can raise.
\<close>

theorem evaluator_missing_entry:
  "map_of data ''nasdaq'' = None \<or> map_of data ''vix'' = None \<Longrightarrow>
     check_crash_condition data = Inr (False, None)"
  by (simp add: check_crash_condition_def)

theorem evaluator_missing_entry_witness:
  "check_crash_condition [(''nasdaq'', [(''drawdown'', Str ''not a number'')])]
     = Inr (False, None)"
  using evaluator_missing_entry [of "[(''nasdaq'', [(''drawdown'', Str ''not a number'')])]"]
  by simp

section \<open>Properties of the fetcher\<close>

lemma round_half_even_below:
  assumes "of_int n < x" and "x < of_int n + 1 / 2"
  shows "round_half_even x = n"
proof -
  have "\<lfloor>x\<rfloor> = n"
    using assms by (intro floor_unique) auto
  then show ?thesis
    using assms by (simp add: round_half_even_def Let_def)
qed

lemma py_round_near_major:
  assumes "- 20 < x" and "x < - 19.995"
  shows "py_round x 2 = - 20"
proof -
  have "round_half_even (x * 100) = - 2000"
    using assms by (intro round_half_even_below) auto
  then show ?thesis
    by (simp add: py_round_def)
qed

lemma get_market_data_events:
  "snd (get_market_data yf) = [Download ''^NDX'', Download ''^GSPC'', Download ''^VIX'']"
  by (simp add: get_market_data_def SYMBOLS_def split: option.splits)

lemma get_market_data_nasdaq:
  "map_of (fst (get_market_data yf)) ''nasdaq'' = fetch_symbol yf ''nasdaq'' ''^NDX''"
  by (simp add: get_market_data_def SYMBOLS_def update_conv' split: option.splits)

lemma get_market_data_vix:
  "map_of (fst (get_market_data yf)) ''vix'' = fetch_symbol yf ''vix'' ''^VIX''"
  by (simp add: get_market_data_def SYMBOLS_def update_conv' split: option.splits)

lemma get_market_data_sp500:
  "map_of (fst (get_market_data yf)) ''sp500'' = fetch_symbol yf ''sp500'' ''^GSPC''"
  by (simp add: get_market_data_def SYMBOLS_def update_conv' split: option.splits)

lemma fetch_symbol_nasdaq_drawdown:
  assumes "fetch_symbol yf ''nasdaq'' symbol = Some entry"
  shows "\<exists>hist. yf symbol = History hist \<and> hist \<noteq> [] \<and>
    map_of entry ''drawdown'' =
      Some (Num (py_round (drawdown_of (bar_close (last hist)) (high_52w_of hist)) 2))"
  using assms
  by (auto simp: fetch_symbol_def Let_def split: history.splits if_splits)

lemma fetch_symbol_vix_value:
  assumes "fetch_symbol yf ''vix'' symbol = Some entry"
  shows "\<exists>hist. yf symbol = History hist \<and> hist \<noteq> [] \<and>
    map_of entry ''value'' = Some (Num (py_round (bar_close (last hist)) 2))"
  using assms
  by (auto simp: fetch_symbol_def Let_def split: history.splits if_splits)

lemma check_crash_condition_fetched:
  "\<exists>is_crash trigger. check_crash_condition (fst (get_market_data yf)) = Inr (is_crash, trigger)"
proof (cases "fetch_symbol yf ''nasdaq'' ''^NDX''")
  case None
  then show ?thesis
    by (auto simp: check_crash_condition_def get_market_data_nasdaq)
next
  case nasdaq: (Some n)
  show ?thesis
  proof (cases "fetch_symbol yf ''vix'' ''^VIX''")
    case None
    then show ?thesis
      by (auto simp: check_crash_condition_def get_market_data_vix)
  next
    case vix: (Some v)
    obtain d where d: "map_of n ''drawdown'' = Some (Num d)"
      using fetch_symbol_nasdaq_drawdown [OF nasdaq] by blast
    obtain x where x: "map_of v ''value'' = Some (Num x)"
      using fetch_symbol_vix_value [OF vix] by blast
    have "map_of (fst (get_market_data yf)) ''nasdaq'' = Some n"
      by (simp add: get_market_data_nasdaq nasdaq)
    moreover have "map_of (fst (get_market_data yf)) ''vix'' = Some v"
      by (simp add: get_market_data_vix vix)
    ultimately show ?thesis
      using check_crash_condition_numeric [OF _ _ d x] by auto
  qed
qed

text \<open>
  Claim C10, as stated, for every raw drawdown in the open interval from \<open>-20.005\<close> to
  \<open>-20.0\<close>: condition 1 does trigger there, but such a drawdown is itself below the
  threshold, not strictly greater. At a close of 79.998 under a high of 100 the raw
  drawdown is \<open>-20.002\<close>.
\<close>

theorem rounded_threshold_counterexample:
  "- 20.005 < drawdown_of 79.998 100 \<and> drawdown_of 79.998 100 < - 20
    \<and> check_crash_condition (fst (get_market_data yf_below_major)) = Inr (True, Some trigger_major)
    \<and> \<not> CRASH_THRESHOLD_MAJOR < drawdown_of 79.998 100"
  by (simp add: get_market_data_def SYMBOLS_def fetch_symbol_def yf_below_major_def
      high_52w_of_def LOOKBACK_DAYS_def list_max_def drawdown_of_def py_round_def
      round_half_even_def Let_def check_crash_condition_def bind_err_def subscript_def
      py_le_def CRASH_THRESHOLD_MAJOR_def)

text \<open>
  Claim C10, amended. The thresholds are applied to the drawdown that the fetcher has
  rounded to two decimals: for every raw drawdown strictly between \<open>-20\<close> and
  \<open>-19.995\<close>, such as \<open>-19.996\<close>, the stored drawdown is \<open>-20.0\<close> and condition 1
  triggers, although the exact drawdown is strictly greater than the threshold. (A
  drawdown in this interval has a non-zero high, so the run is inside the model.)
\<close>

theorem rounded_threshold:
  assumes "yf ''^NDX'' = History hist" and "hist \<noteq> []"
    and "yf ''^VIX'' = History vhist" and "vhist \<noteq> []"
    and "- 20 < drawdown_of (bar_close (last hist)) (high_52w_of hist)"
    and "drawdown_of (bar_close (last hist)) (high_52w_of hist) < - 19.995"
  shows "bind_err (subscript (fst (get_market_data yf)) ''nasdaq'') (\<lambda>e. subscript e ''drawdown'')
           = Inr (Num (- 20))
    \<and> check_crash_condition (fst (get_market_data yf)) = Inr (True, Some trigger_major)
    \<and> CRASH_THRESHOLD_MAJOR < drawdown_of (bar_close (last hist)) (high_52w_of hist)"
proof -
  let ?raw = "drawdown_of (bar_close (last hist)) (high_52w_of hist)"
  have r: "py_round ?raw 2 = - 20"
    using assms(5,6) by (rule py_round_near_major)
  obtain n where n: "fetch_symbol yf ''nasdaq'' ''^NDX'' = Some n"
    and nd: "map_of n ''drawdown'' = Some (Num (- 20))"
    using assms(1,2) r by (simp add: fetch_symbol_def Let_def)
  obtain v where v: "fetch_symbol yf ''vix'' ''^VIX'' = Some v"
    and vv: "map_of v ''value'' = Some (Num (py_round (bar_close (last vhist)) 2))"
    using assms(3,4) by (simp add: fetch_symbol_def Let_def)
  have dn: "map_of (fst (get_market_data yf)) ''nasdaq'' = Some n"
    by (simp add: get_market_data_nasdaq n)
  have dv: "map_of (fst (get_market_data yf)) ''vix'' = Some v"
    by (simp add: get_market_data_vix v)
  have "check_crash_condition (fst (get_market_data yf)) = Inr (True, Some trigger_major)"
    using check_crash_condition_major [OF dn dv nd vv] by simp
  moreover have "bind_err (subscript (fst (get_market_data yf)) ''nasdaq'')
      (\<lambda>e. subscript e ''drawdown'') = Inr (Num (- 20))"
    by (simp add: bind_err_def subscript_def dn nd)
  ultimately show ?thesis
    using assms(5) by (simp add: CRASH_THRESHOLD_MAJOR_def)
qed

theorem rounded_threshold_witness:
  "bind_err (subscript (fst (get_market_data yf_above_major)) ''nasdaq'')
      (\<lambda>e. subscript e ''drawdown'') = Inr (Num (- 20))
    \<and> check_crash_condition (fst (get_market_data yf_above_major)) = Inr (True, Some trigger_major)
    \<and> CRASH_THRESHOLD_MAJOR < drawdown_of 80.004 100
    \<and> drawdown_of 80.004 100 = - 19.996"
  using rounded_threshold [of yf_above_major "[\<lparr>bar_close = 80.004, bar_high = 100\<rparr>]"
      "[\<lparr>bar_close = 18, bar_high = 19\<rparr>]"]
  by (simp add: yf_above_major_def high_52w_of_def LOOKBACK_DAYS_def list_max_def
      drawdown_of_def)


section \<open>Properties of the JSON text\<close>

text \<open>
  Decoding what the encoder printed. The equation of \<open>scanstring\<close> for a non-empty
  text is applied one character at a time.
\<close>

lemma hexval_hexdigit_all: "\<forall>k\<in>{0..<16::nat}. hexval (hexdigit k) = Some k"
  by code_simp

lemma hexval_hexdigit: "k < 16 \<Longrightarrow> hexval (hexdigit k) = Some k"
  using hexval_hexdigit_all by simp

lemma hexval_zero: "hexval CHR ''0'' = Some 0"
  by (simp add: hexval_def)

lemma hex4_control:
  assumes "n < 32"
  shows "hex4 CHR ''0'' CHR ''0'' (hexdigit (n div 16)) (hexdigit (n mod 16)) = Some n"
proof -
  have "n div 16 < 16" using assms by simp
  then show ?thesis
    by (simp add: hex4_def hexval_zero hexval_hexdigit)
qed

lemma utf8_encode_of_char:
  "(of_char c :: nat) < 32 \<Longrightarrow> utf8_encode (of_char c) = [c]"
  by (simp add: utf8_encode_def)


declare scanstring.simps(2) [simp del]

lemma scanstring_plain:
  assumes "c \<noteq> CHR 0x22" and "c \<noteq> CHR 0x5C" and "\<not> (of_char c :: nat) < 0x20"
  shows "scanstring (c # X) = prepend [c] (scanstring X)"
  using assms by (subst scanstring.simps) (simp del: scanstring.simps)

lemma scanstring_named:
  assumes "unescape e = Some ch" and "e \<noteq> CHR ''u''"
  shows "scanstring (CHR 0x5C # e # X) = prepend [ch] (scanstring X)"
  using assms by (subst scanstring.simps) (simp del: scanstring.simps)

lemma scanstring_control:
  assumes "hex4 h1 h2 h3 h4 = Some uni" and "uni < 0xD800"
  shows "scanstring (CHR 0x5C # CHR ''u'' # h1 # h2 # h3 # h4 # X)
     = prepend (utf8_encode uni) (scanstring X)"
  using assms
  by (subst scanstring.simps) (simp del: scanstring.simps split: list.split)

lemma scanstring_escape_char:
  "scanstring (escape_char c @ X) = prepend [c] (scanstring X)"
proof -
  consider (quote) "c = CHR 0x22" | (backslash) "c = CHR 0x5C" | (nl) "c = CHR 0x0A"
    | (cr) "c = CHR 0x0D" | (tab) "c = CHR 0x09" | (bs) "c = CHR 0x08" | (ff) "c = CHR 0x0C"
    | (control) "c \<noteq> CHR 0x22" "c \<noteq> CHR 0x5C" "c \<noteq> CHR 0x0A" "c \<noteq> CHR 0x0D"
        "c \<noteq> CHR 0x09" "c \<noteq> CHR 0x08" "c \<noteq> CHR 0x0C" "(of_char c :: nat) < 0x20"
    | (plain) "c \<noteq> CHR 0x22" "c \<noteq> CHR 0x5C" "c \<noteq> CHR 0x0A" "c \<noteq> CHR 0x0D"
        "c \<noteq> CHR 0x09" "c \<noteq> CHR 0x08" "c \<noteq> CHR 0x0C" "\<not> (of_char c :: nat) < 0x20"
    by blast
  then show ?thesis
  proof cases
    case quote
    then show ?thesis
      by (simp add: escape_char_def scanstring_named unescape_def)
  next
    case backslash
    then show ?thesis
      by (simp add: escape_char_def scanstring_named unescape_def)
  next
    case nl
    then show ?thesis
      by (simp add: escape_char_def scanstring_named unescape_def)
  next
    case cr
    then show ?thesis
      by (simp add: escape_char_def scanstring_named unescape_def)
  next
    case tab
    then show ?thesis
      by (simp add: escape_char_def scanstring_named unescape_def)
  next
    case bs
    then show ?thesis
      by (simp add: escape_char_def scanstring_named unescape_def)
  next
    case ff
    then show ?thesis
      by (simp add: escape_char_def scanstring_named unescape_def)
  next
    case control
    have h: "hex4 CHR ''0'' CHR ''0'' (hexdigit (of_char c div 16))
        (hexdigit (of_char c mod 16)) = Some (of_char c)"
      using control(8) by (intro hex4_control) simp
    have u: "utf8_encode (of_char c) = [c]"
      using control(8) by (intro utf8_encode_of_char) simp
    have "(of_char c :: nat) < 0xD800"
      using control(8) by simp
    from scanstring_control [OF h this] show ?thesis
      using control by (simp add: escape_char_def u)
  next
    case plain
    then show ?thesis
      by (simp add: escape_char_def scanstring_plain)
  qed
qed

lemma scanstring_escaped:
  "scanstring (concat (map escape_char s) @ CHR 0x22 # rest) = Some (s, rest)"
proof (induction s)
  case Nil
  show ?case
    by (simp add: scanstring.simps(2))
next
  case (Cons c s)
  then show ?case
    by (simp add: scanstring_escape_char prepend_def)
qed

lemma parse_value_string:
  "parse_value (Suc n) (encode_basestring s @ rest) = Some (JStr s, rest)"
  by (simp add: encode_basestring_def scanstring_escaped)

lemma newline_indent_0: "newline_indent 0 = [CHR 0x0A]"
  by (simp add: newline_indent_def)

lemma newline_indent_1: "newline_indent (Suc 0) = [CHR 0x0A, CHR '' '', CHR '' '']"
  by (simp add: newline_indent_def numeral_2_eq_2)

lemma parse_value_scalar:
  assumes "scalar v"
  shows "parse_value (Suc n) (json_encode float_str level v @ rest) = Some (v, rest)"
proof (cases v)
  case (JStr s)
  then show ?thesis by (simp add: parse_value_string del: parse_value.simps)
next
  case JNull
  then show ?thesis by (simp add: match_literal_def)
next
  case (JBool b)
  then show ?thesis by (simp add: match_literal_def)
qed (use assms in \<open>simp_all add: scalar_def\<close>)

lemma skip_ws_scalar:
  assumes "scalar v"
  shows "skip_ws (json_encode float_str level v @ rest) = json_encode float_str level v @ rest"
  using assms
  by (cases v) (simp_all add: scalar_def skip_ws_def is_ws_def encode_basestring_def)

lemma parse_members_step:
  assumes "scalar v"
  shows "parse_members (Suc (Suc m))
      (encode_basestring k @ '': '' @ json_encode float_str level v @ Z) =
     (case skip_ws Z of
        [] \<Rightarrow> None
      | c # r4 \<Rightarrow>
          if c = CHR ''}'' then Some ([(k, v)], r4)
          else if c = CHR '','' then
            (case parse_members (Suc m) (skip_ws r4) of
               None \<Rightarrow> None
             | Some (ps, rest) \<Rightarrow> Some ((k, v) # ps, rest))
          else None)"
proof -
  have s: "scanstring (concat (map escape_char k) @ CHR 0x22 # '': '' @ json_encode float_str level v @ Z)
      = Some (k, '': '' @ json_encode float_str level v @ Z)"
    by (rule scanstring_escaped)
  have w: "skip_ws (CHR '' '' # json_encode float_str level v @ Z) = json_encode float_str level v @ Z"
    using skip_ws_scalar [OF assms, of float_str level Z] by (simp add: skip_ws_def is_ws_def)
  have p: "parse_value (Suc m) (json_encode float_str level v @ Z) = Some (v, Z)"
    by (rule parse_value_scalar [OF assms])
  show ?thesis
    using s by (simp add: encode_basestring_def skip_ws_def [of "CHR '':'' # _"] is_ws_def w p
        del: parse_value.simps)
qed

lemma parse_members_flat:
  assumes "kvs \<noteq> []" and "list_all (\<lambda>kv. scalar (snd kv)) kvs" and "length kvs < n"
  shows "parse_members n
      (join_with ('','' @ newline_indent (Suc 0))
         (map (\<lambda>kv. encode_basestring (fst kv) @ '': '' @
                     json_encode float_str (Suc 0) (snd kv)) kvs) @
       newline_indent 0 @ ''}'' @ rest) = Some (kvs, rest)"
  using assms
proof (induction kvs arbitrary: n)
  case Nil
  then show ?case by simp
next
  case (Cons kv kvs)
  obtain k v where kv: "kv = (k, v)"
    by (cases kv)
  from Cons.prems kv have v: "scalar v"
    by simp
  from Cons.prems obtain m where n: "n = Suc (Suc m)" and m: "length kvs < Suc m"
    by (cases n; cases "n - 1") auto
  show ?case
  proof (cases kvs)
    case Nil
    then show ?thesis
      using parse_members_step [OF v, of m k float_str "Suc 0" "newline_indent 0 @ ''}'' @ rest"]
      by (simp add: kv n newline_indent_0 skip_ws_def is_ws_def)
  next
    case (Cons kv' kvs')
    have ih: "parse_members (Suc m)
        (join_with ('','' @ newline_indent (Suc 0))
           (map (\<lambda>kv. encode_basestring (fst kv) @ '': '' @
                       json_encode float_str (Suc 0) (snd kv)) kvs) @
         newline_indent 0 @ ''}'' @ rest) = Some (kvs, rest)"
      using Cons.IH [of "Suc m"] Cons.prems Cons m by simp
    have q: "skip_ws (newline_indent (Suc 0) @
          join_with sep ((encode_basestring k' @ A) # xs) @ Z)
        = join_with sep ((encode_basestring k' @ A) # xs) @ Z" for k' A xs sep Z
      by (cases xs) (simp_all add: newline_indent_1 skip_ws_def is_ws_def encode_basestring_def)
    show ?thesis
      using parse_members_step [OF v, of m k float_str "Suc 0"
          "'','' @ newline_indent (Suc 0) @
           join_with ('','' @ newline_indent (Suc 0))
             (map (\<lambda>kv. encode_basestring (fst kv) @ '': '' @
                         json_encode float_str (Suc 0) (snd kv)) kvs) @
           newline_indent 0 @ ''}'' @ rest"] ih
      by (simp add: kv n Cons skip_ws_def [of "CHR '','' # _"] is_ws_def q
          del: parse_members.simps)
  qed
qed

lemma parse_value_empty_object:
  "parse_value (Suc n) (''{}'' @ rest) = Some (JObj [], rest)"
  by (simp add: skip_ws_def is_ws_def)

lemma update_fresh_key:
  "k \<notin> fst ` set acc \<Longrightarrow> AList.update k v acc = acc @ [(k, v)]"
  by (induction acc) auto

lemma fold_update_distinct:
  "distinct (map fst (acc @ ps)) \<Longrightarrow>
     fold (\<lambda>(k, v) d. AList.update k v d) ps acc = acc @ ps"
proof (induction ps arbitrary: acc)
  case Nil
  show ?case by simp
next
  case (Cons p ps)
  obtain k v where p: "p = (k, v)"
    by (cases p)
  from Cons.prems p have fresh: "k \<notin> fst ` set acc"
    by auto
  from Cons.prems p have "distinct (map fst ((acc @ [(k, v)]) @ ps))"
    by simp
  from Cons.IH [OF this] show ?case
    by (simp add: p update_fresh_key [OF fresh])
qed

lemma dict_of_pairs_distinct:
  "distinct (map fst ps) \<Longrightarrow> dict_of_pairs ps = ps"
  using fold_update_distinct [of "[]" ps] by (simp add: dict_of_pairs_def)

lemma length_join_with:
  assumes "\<And>x. x \<in> set xs \<Longrightarrow> x \<noteq> []"
  shows "length xs \<le> length (join_with sep xs)"
  using assms
proof (induction sep xs rule: join_with.induct)
  case (2 sep x)
  then show ?case
    by (cases x) simp_all
next
  case (3 sep x y ys)
  then have "x \<noteq> []" and "length (y # ys) \<le> length (join_with sep (y # ys))"
    by simp_all
  then show ?case
    by (cases x) simp_all
qed simp

lemma parse_value_flat_object:
  assumes "kvs \<noteq> []" and "list_all (\<lambda>kv. scalar (snd kv)) kvs"
    and "distinct (map fst kvs)" and "length kvs < n"
  shows "parse_value (Suc n)
      (''{'' @ newline_indent (Suc 0) @
       join_with ('','' @ newline_indent (Suc 0))
         (map (\<lambda>kv. encode_basestring (fst kv) @ '': '' @
                     json_encode float_str (Suc 0) (snd kv)) kvs) @
       newline_indent 0 @ ''}'' @ rest) = Some (JObj kvs, rest)"
    (is "parse_value _ (_ @ _ @ ?body @ _) = _")
proof -
  obtain kv kvs' where kvs: "kvs = kv # kvs'"
    using assms(1) by (cases kvs) auto
  obtain r where b: "?body @ newline_indent 0 @ ''}'' @ rest = CHR 0x22 # r"
    by (cases kvs') (simp_all add: kvs encode_basestring_def)
  have "parse_members n (?body @ newline_indent 0 @ ''}'' @ rest) = Some (kvs, rest)"
    using assms(1,2,4) by (rule parse_members_flat)
  then have m: "parse_members n (CHR 0x22 # r) = Some (kvs, rest)"
    by (simp only: b)
  have ws: "skip_ws (newline_indent (Suc 0) @ CHR 0x22 # r) = CHR 0x22 # r"
    by (simp add: newline_indent_1 skip_ws_def is_ws_def)
  have "parse_value (Suc n) (CHR ''{'' # newline_indent (Suc 0) @ CHR 0x22 # r)
      = Some (JObj kvs, rest)"
    by (simp add: ws m dict_of_pairs_distinct [OF assms(3)] del: parse_members.simps)
  moreover have "''{'' @ newline_indent (Suc 0) @ ?body @ newline_indent 0 @ ''}'' @ rest
      = CHR ''{'' # newline_indent (Suc 0) @ CHR 0x22 # r"
    using b by simp
  ultimately show ?thesis
    by (simp only:)
qed

lemma json_loads_flat_record:
  assumes "flat_record st"
  shows "json_loads (json_dumps float_str st) = Some st"
proof -
  from assms obtain kvs where st: "st = JObj kvs" and d: "distinct (map fst kvs)"
    and sc: "list_all (\<lambda>kv. scalar (snd kv)) kvs"
    by (cases st) (simp_all add: flat_record_def)
  show ?thesis
  proof (cases "kvs = []")
    case True
    then show ?thesis
      using parse_value_empty_object [of "2 * length ''{}''" "[]"]
      by (simp add: st json_loads_def json_dumps_def skip_ws_def is_ws_def)
  next
    case False
    let ?items = "map (\<lambda>kv. encode_basestring (fst kv) @ '': '' @
        json_encode float_str (Suc 0) (snd kv)) kvs"
    let ?body = "join_with ('','' @ newline_indent (Suc 0)) ?items"
    let ?dumped = "''{'' @ newline_indent (Suc 0) @ ?body @ newline_indent 0 @ ''}'' @ []"
    have dumped: "json_dumps float_str st = ?dumped"
      using False by (simp add: st json_dumps_def)
    have "length kvs \<le> length ?body"
      by (intro order_trans [OF _ length_join_with]) (auto simp: encode_basestring_def)
    then have fuel: "length kvs < 2 * length ?dumped"
      by simp
    have p: "parse_value (Suc (2 * length ?dumped)) ?dumped = Some (JObj kvs, [])"
      using False sc d fuel by (rule parse_value_flat_object)
    have w: "skip_ws ?dumped = ?dumped"
      by (simp add: skip_ws_def is_ws_def)
    show ?thesis
      unfolding dumped json_loads_def w p
      by (simp add: st skip_ws_def)
  qed
qed

section \<open>Properties of the state store\<close>

lemma documented_state_flat:
  assumes "documented_state st"
  shows "flat_record st"
proof -
  from assms obtain kvs where st: "st = JObj kvs" and d: "distinct (map fst kvs)"
    and keys: "set (map fst kvs) = {''is_crash'', ''first_detected'', ''last_checked''}"
    and b: "is_bool (map_of kvs ''is_crash'')"
    and f: "is_str_or_null (map_of kvs ''first_detected'')"
    and l: "is_str_or_null (map_of kvs ''last_checked'')"
    by (cases st) (simp_all add: documented_state_def)
  have "scalar (snd kv)" if "kv \<in> set kvs" for kv
  proof -
    obtain k v where kv: "kv = (k, v)"
      by (cases kv)
    from that kv d have m: "map_of kvs k = Some v"
      by simp
    from that kv have "k \<in> set (map fst kvs)"
      by force
    with keys have "k = ''is_crash'' \<or> k = ''first_detected'' \<or> k = ''last_checked''"
      by simp
    with m b f l show ?thesis
      by (auto simp: kv scalar_def is_bool_def is_str_or_null_def
          split: option.splits json.splits)
  qed
  then show ?thesis
    by (simp add: st flat_record_def d list_all_iff)
qed

lemma load_saved_flat_record:
  assumes "flat_record st" and "writable fs"
  shows "load_state (save_state float_str st fs) = st"
  using assms
  by (simp add: load_state_def save_state_def json_loads_flat_record)

text \<open>
  Claim C7. For every state record of the documented shape, a dictionary with exactly
  the keys \<^verbatim>\<open>is_crash\<close> (a bool), \<^verbatim>\<open>first_detected\<close> and \<^verbatim>\<open>last_checked\<close> (each a
  string or null), in any order, \<^verbatim>\<open>save_state\<close> followed by \<^verbatim>\<open>load_state\<close> yields the
  record that was saved, when the save succeeds, that is when the file is writable.
\<close>

theorem state_round_trip:
  assumes "documented_state st" and "writable fs"
  shows "load_state (save_state float_str st fs) = st"
  using load_saved_flat_record [OF documented_state_flat [OF assms(1)] assms(2)] .

theorem state_round_trip_witness:
  "load_state (save_state float_str_example
     (JObj [(''is_crash'', JBool True),
            (''first_detected'', JStr (''2024-03-01T09:30:00 '' @ [CHR 0x22, CHR 0x5C, CHR 0x07, CHR 0x0A, CHR 0xE3])),
            (''last_checked'', JNull)]) fs_fresh)
   = JObj [(''is_crash'', JBool True),
           (''first_detected'', JStr (''2024-03-01T09:30:00 '' @ [CHR 0x22, CHR 0x5C, CHR 0x07, CHR 0x0A, CHR 0xE3])),
           (''last_checked'', JNull)]"
  using state_round_trip [of "JObj [(''is_crash'', JBool True),
            (''first_detected'', JStr (''2024-03-01T09:30:00 '' @ [CHR 0x22, CHR 0x5C, CHR 0x07, CHR 0x0A, CHR 0xE3])),
            (''last_checked'', JNull)]" fs_fresh float_str_example]
  by (simp add: documented_state_def is_bool_def is_str_or_null_def fs_fresh_def insert_commute)

lemma json_loads_is_crash_only:
  "json_loads text_is_crash_only = Some (JObj [(''is_crash'', JBool True)])"
  by code_simp

lemma json_loads_default_record: "json_loads text_default_record = Some default_state"
  by code_simp

lemma json_loads_cut_off: "json_loads text_cut_off = None"
  by code_simp

text \<open>
  Claim C9, as stated, has the default record returned exactly when the file is absent
  or fails to parse. The record is also returned for a file that parses, to the default
  record itself, and for a file that exists but cannot be opened or read, which the
  same \<^verbatim>\<open>except\<close> clause catches.
\<close>

theorem load_state_default_counterexample:
  "load_state \<lparr>state_file = Text text_default_record, writable = True\<rparr> = default_state
   \<and> json_loads text_default_record \<noteq> None
   \<and> load_state \<lparr>state_file = Unreadable, writable = True\<rparr> = default_state"
  by (simp add: load_state_def json_loads_default_record)

text \<open>
  Claim C9, amended. \<^verbatim>\<open>load_state\<close> returns the default record whenever the state
  file is absent, cannot be opened or read, or fails to parse as JSON. Every text that
  parses is returned as the parsed value, with no schema check (so the result is the
  default record only if the text denotes it): the object with the single field
  \<^verbatim>\<open>is_crash\<close> is returned as it is and is not the default record.
\<close>

theorem load_state_cases:
  "(state_file fs = Absent \<or> state_file fs = Unreadable
      \<or> (\<exists>s. state_file fs = Text s \<and> json_loads s = None)
     \<longrightarrow> load_state fs = default_state)
   \<and> (\<forall>s v. state_file fs = Text s \<and> json_loads s = Some v \<longrightarrow> load_state fs = v)
   \<and> json_loads text_is_crash_only = Some (JObj [(''is_crash'', JBool True)])
   \<and> JObj [(''is_crash'', JBool True)] \<noteq> default_state"
  by (auto simp: load_state_def json_loads_is_crash_only default_state_def)

theorem load_state_cases_witness:
  "load_state \<lparr>state_file = Text text_is_crash_only, writable = True\<rparr>
     = JObj [(''is_crash'', JBool True)]
   \<and> load_state \<lparr>state_file = Text text_cut_off, writable = True\<rparr> = default_state
   \<and> load_state \<lparr>state_file = Absent, writable = True\<rparr> = default_state"
  using load_state_cases [of "\<lparr>state_file = Text text_is_crash_only, writable = True\<rparr>"]
    load_state_cases [of "\<lparr>state_file = Text text_cut_off, writable = True\<rparr>"]
    load_state_cases [of "\<lparr>state_file = Absent, writable = True\<rparr>"]
  by (simp add: json_loads_is_crash_only json_loads_cut_off)

section \<open>Properties of the run\<close>

lemma fetched_no_post: "filter is_post (snd (get_market_data yf)) = []"
  by (simp add: get_market_data_events is_post_def)

lemma main_state_machine:
  assumes "map_of environ ''SLACK_WEBHOOK_URL'' = Some url" and "url \<noteq> []"
    and "fst (get_market_data yf) \<noteq> []"
    and "check_crash_condition (fst (get_market_data yf)) = Inr (is_crash, trigger)"
    and "dict_get (load_state fs) ''is_crash'' (JBool False) = Inr prev"
  shows "main float_str environ yf now fs =
     (if is_crash then
        if \<not> truthy prev then
          \<lparr>outcome = Completed,
           trace = snd (get_market_data yf) @
             [HttpPost url (slack_payload
                (format_initial_alert float_str (fst (get_market_data yf)) trigger))],
           files = save_state float_str
             (JObj [(''is_crash'', JBool True), (''first_detected'', JStr now),
                    (''last_checked'', JStr now)]) fs\<rparr>
        else
          (case copy_with (load_state fs) ''last_checked'' (JStr now) of
             Inl e \<Rightarrow>
               \<lparr>outcome = Uncaught e,
                trace = snd (get_market_data yf) @
                  [HttpPost url (slack_payload
                     (format_continuation_alert float_str (fst (get_market_data yf))))],
                files = fs\<rparr>
           | Inr new_state \<Rightarrow>
               \<lparr>outcome = Completed,
                trace = snd (get_market_data yf) @
                  [HttpPost url (slack_payload
                     (format_continuation_alert float_str (fst (get_market_data yf))))],
                files = save_state float_str new_state fs\<rparr>)
      else
        \<lparr>outcome = Completed, trace = snd (get_market_data yf),
         files = save_state float_str
           (JObj [(''is_crash'', JBool False), (''first_detected'', JNull),
                  (''last_checked'', JStr now)]) fs\<rparr>)"
proof -
  obtain data fetched where g: "get_market_data yf = (data, fetched)"
    by (cases "get_market_data yf")
  with assms have "data \<noteq> []" and "check_crash_condition data = Inr (is_crash, trigger)"
    by simp_all
  with assms(1,2,5) g show ?thesis
    by (simp add: main_def send_slack_notification_def split: sum.splits)
qed

lemma dict_get_copy_with:
  assumes "dict_get d k dflt = Inr v"
  shows "\<exists>kvs. d = JObj kvs \<and> copy_with d k' v' = Inr (JObj (AList.update k' v' kvs))"
  using assms by (cases d) (simp_all add: dict_get_def copy_with_def)

lemma flat_record_update:
  assumes "flat_record (JObj kvs)" and "scalar v"
  shows "flat_record (JObj (AList.update k v kvs))"
proof -
  have "list_all (\<lambda>kv. scalar (snd kv)) (AList.update k v kvs)"
    using assms by (induction kvs) (auto simp: flat_record_def)
  then show ?thesis
    using assms(1) by (simp add: flat_record_def distinct_update)
qed

lemma above_major_data:
  "fst (get_market_data yf_above_major) \<noteq> []"
  "check_crash_condition (fst (get_market_data yf_above_major)) = Inr (True, Some trigger_major)"
  by (simp_all add: get_market_data_def SYMBOLS_def fetch_symbol_def yf_above_major_def
      high_52w_of_def LOOKBACK_DAYS_def list_max_def drawdown_of_def py_round_def
      round_half_even_def Let_def check_crash_condition_def bind_err_def subscript_def
      py_le_def CRASH_THRESHOLD_MAJOR_def)

lemma calm_data:
  "fst (get_market_data yf_calm) \<noteq> []"
  "check_crash_condition (fst (get_market_data yf_calm)) = Inr (False, None)"
  by (simp_all add: get_market_data_def SYMBOLS_def fetch_symbol_def yf_calm_def
      high_52w_of_def LOOKBACK_DAYS_def list_max_def drawdown_of_def py_round_def
      round_half_even_def Let_def check_crash_condition_def bind_err_def subscript_def
      py_le_def py_ge_def CRASH_THRESHOLD_MAJOR_def CRASH_THRESHOLD_MINOR_def VIX_THRESHOLD_def)

lemma load_fs_fresh: "load_state fs_fresh = default_state"
  by (simp add: load_state_def fs_fresh_def)

lemma load_fs_crashed:
  "load_state fs_crashed =
     JObj [(''is_crash'', JBool True), (''first_detected'', JStr ''2024-03-01T09:30:00''),
           (''last_checked'', JStr ''2024-03-04T09:30:00''), (''note'', JArr [JInt 1, JInt 2])]"
  by code_simp

lemma writable_fs_crashed: "writable fs_crashed"
  by (simp add: fs_crashed_def)

lemma environ_configured_url:
  "map_of environ_configured ''SLACK_WEBHOOK_URL'' = Some ''https://hooks.test/T0''"
  by (simp add: environ_configured_def)

text \<open>
  Claim C8. If the webhook variable is unset or empty, the run ends with
  \<^verbatim>\<open>sys.exit(1)\<close> before any network activity: no history request and no POST is
  made, and the state file is not touched.
\<close>

theorem missing_webhook_exits:
  assumes "map_of environ ''SLACK_WEBHOOK_URL'' = None
    \<or> map_of environ ''SLACK_WEBHOOK_URL'' = Some []"
  shows "main float_str environ yf now fs = \<lparr>outcome = SysExit 1, trace = [], files = fs\<rparr>
    \<and> exit_code (outcome (main float_str environ yf now fs)) = 1"
  using assms by (auto simp: main_def exit_code_def)

theorem missing_webhook_exits_witness:
  "main float_str_example [(''PATH'', ''/usr/bin''), (''SLACK_WEBHOOK_URL'', [])] yf_below_major
      now_example fs_crashed
     = \<lparr>outcome = SysExit 1, trace = [], files = fs_crashed\<rparr>
   \<and> exit_code (outcome (main float_str_example
        [(''PATH'', ''/usr/bin''), (''SLACK_WEBHOOK_URL'', [])] yf_below_major
        now_example fs_crashed)) = 1"
  using missing_webhook_exits [of "[(''PATH'', ''/usr/bin''), (''SLACK_WEBHOOK_URL'', [])]"
      float_str_example yf_below_major now_example fs_crashed]
  by (simp add: exit_code_def)

text \<open>
  Claim C2. A run reaches the state-machine step when the webhook is configured, the
  fetched data is not empty and the loaded state is a dictionary (so that line 285
  returns). On every such run a notification is sent if and only if the evaluator
  triggered: exactly one POST, of the initial alert when the previous state was
  no-crash and of the continuation alert when it was crash; without a trigger the
  run makes the three history requests only.
\<close>

theorem notification_iff_triggered:
  assumes "map_of environ ''SLACK_WEBHOOK_URL'' = Some url" and "url \<noteq> []"
    and "fst (get_market_data yf) \<noteq> []"
    and "check_crash_condition (fst (get_market_data yf)) = Inr (is_crash, trigger)"
    and "dict_get (load_state fs) ''is_crash'' (JBool False) = Inr prev"
  shows "filter is_post (trace (main float_str environ yf now fs)) =
      (if is_crash then
         [HttpPost url (slack_payload
            (if truthy prev
             then format_continuation_alert float_str (fst (get_market_data yf))
             else format_initial_alert float_str (fst (get_market_data yf)) trigger))]
       else [])
    \<and> ((\<exists>e \<in> set (trace (main float_str environ yf now fs)). is_post e) \<longleftrightarrow> is_crash)
    \<and> (\<not> is_crash \<longrightarrow> trace (main float_str environ yf now fs) = snd (get_market_data yf))
    \<and> outcome (main float_str environ yf now fs) = Completed"
proof -
  obtain kvs where c: "copy_with (load_state fs) ''last_checked'' (JStr now)
      = Inr (JObj (AList.update ''last_checked'' (JStr now) kvs))"
    using dict_get_copy_with [OF assms(5)] by blast
  show ?thesis
    unfolding main_state_machine [OF assms]
    by (simp add: c fetched_no_post get_market_data_events is_post_def)
qed

theorem notification_iff_triggered_witness:
  "filter is_post (trace (main float_str_example environ_configured yf_above_major
       now_example fs_fresh)) =
     [HttpPost ''https://hooks.test/T0'' (slack_payload
        (format_initial_alert float_str_example (fst (get_market_data yf_above_major))
           (Some trigger_major)))]
   \<and> (\<exists>e \<in> set (trace (main float_str_example environ_configured yf_above_major
         now_example fs_fresh)). is_post e)
   \<and> outcome (main float_str_example environ_configured yf_above_major
         now_example fs_fresh) = Completed"
  using notification_iff_triggered [of environ_configured "''https://hooks.test/T0''"
      yf_above_major True "Some trigger_major" fs_fresh "JBool False" float_str_example
      now_example]
  by (simp add: environ_configured_url above_major_data load_fs_fresh default_state_def
      dict_get_def truthy_def)

text \<open>
  Claim C3. When the loaded state is a crash state and the evaluator triggers, the
  record handed to \<^verbatim>\<open>save_state\<close> is the loaded record with \<^verbatim>\<open>last_checked\<close> set to
  the current time: every other key, \<^verbatim>\<open>is_crash\<close> and \<^verbatim>\<open>first_detected\<close> among
  them, keeps its value. If the file is writable, the file then holds the text of that
  record, and for a flat record reading it back gives that record.
\<close>

theorem continuation_keeps_state:
  assumes "map_of environ ''SLACK_WEBHOOK_URL'' = Some url" and "url \<noteq> []"
    and "fst (get_market_data yf) \<noteq> []"
    and "check_crash_condition (fst (get_market_data yf)) = Inr (True, trigger)"
    and "load_state fs = JObj kvs"
    and "map_of kvs ''is_crash'' = Some prev" and "truthy prev"
  shows "files (main float_str environ yf now fs) =
      save_state float_str (JObj (AList.update ''last_checked'' (JStr now) kvs)) fs
    \<and> map_of (AList.update ''last_checked'' (JStr now) kvs) ''last_checked'' = Some (JStr now)
    \<and> (\<forall>k. k \<noteq> ''last_checked'' \<longrightarrow>
          map_of (AList.update ''last_checked'' (JStr now) kvs) k = map_of kvs k)
    \<and> (writable fs \<longrightarrow>
          state_file (files (main float_str environ yf now fs)) =
            Text (json_dumps float_str (JObj (AList.update ''last_checked'' (JStr now) kvs))))
    \<and> (writable fs \<and> flat_record (JObj kvs) \<longrightarrow>
          load_state (files (main float_str environ yf now fs)) =
            JObj (AList.update ''last_checked'' (JStr now) kvs))"
proof -
  have g: "dict_get (load_state fs) ''is_crash'' (JBool False) = Inr prev"
    using assms(5,6) by (simp add: dict_get_def)
  have f: "files (main float_str environ yf now fs) =
      save_state float_str (JObj (AList.update ''last_checked'' (JStr now) kvs)) fs"
    unfolding main_state_machine [OF assms(1-4) g]
    using assms(5,7) by (simp add: copy_with_def)
  have r: "load_state (save_state float_str
        (JObj (AList.update ''last_checked'' (JStr now) kvs)) fs) =
      JObj (AList.update ''last_checked'' (JStr now) kvs)"
    if "writable fs" and "flat_record (JObj kvs)"
    using that by (intro load_saved_flat_record flat_record_update) (simp_all add: scalar_def)
  show ?thesis
    using r by (simp add: f update_conv' save_state_def)
qed

theorem continuation_keeps_state_witness:
  "files (main float_str_example environ_configured yf_above_major now_example fs_crashed) =
     save_state float_str_example
       (JObj [(''is_crash'', JBool True), (''first_detected'', JStr ''2024-03-01T09:30:00''),
              (''last_checked'', JStr now_example), (''note'', JArr [JInt 1, JInt 2])])
       fs_crashed"
  using continuation_keeps_state [of environ_configured "''https://hooks.test/T0''"
      yf_above_major "Some trigger_major" fs_crashed
      "[(''is_crash'', JBool True), (''first_detected'', JStr ''2024-03-01T09:30:00''),
        (''last_checked'', JStr ''2024-03-04T09:30:00''), (''note'', JArr [JInt 1, JInt 2])]"
      "JBool True" float_str_example now_example]
  by (simp add: environ_configured_url above_major_data load_fs_crashed truthy_def)

text \<open>
  Claim C4. On every run that reaches the state-machine step, whenever the evaluator
  does not trigger, whatever the loaded record is, the record handed to
  \<^verbatim>\<open>save_state\<close> is exactly \<^verbatim>\<open>is_crash\<close> false, \<^verbatim>\<open>first_detected\<close> null and
  \<^verbatim>\<open>last_checked\<close> the current time, and if the file is writable this is the state the
  next run loads. Nothing is sent.
\<close>

theorem no_trigger_resets_state:
  assumes "map_of environ ''SLACK_WEBHOOK_URL'' = Some url" and "url \<noteq> []"
    and "fst (get_market_data yf) \<noteq> []"
    and "check_crash_condition (fst (get_market_data yf)) = Inr (False, trigger)"
    and "dict_get (load_state fs) ''is_crash'' (JBool False) = Inr prev"
  shows "files (main float_str environ yf now fs) =
      save_state float_str
        (JObj [(''is_crash'', JBool False), (''first_detected'', JNull),
               (''last_checked'', JStr now)]) fs
    \<and> (writable fs \<longrightarrow>
          load_state (files (main float_str environ yf now fs)) =
            JObj [(''is_crash'', JBool False), (''first_detected'', JNull),
                  (''last_checked'', JStr now)])
    \<and> trace (main float_str environ yf now fs) = snd (get_market_data yf)
    \<and> outcome (main float_str environ yf now fs) = Completed"
proof -
  have "flat_record (JObj [(''is_crash'', JBool False), (''first_detected'', JNull),
      (''last_checked'', JStr now)])"
    by (simp add: flat_record_def scalar_def)
  then have "load_state (save_state float_str
      (JObj [(''is_crash'', JBool False), (''first_detected'', JNull),
             (''last_checked'', JStr now)]) fs) =
      JObj [(''is_crash'', JBool False), (''first_detected'', JNull),
            (''last_checked'', JStr now)]" if "writable fs"
    using that by (rule load_saved_flat_record)
  then show ?thesis
    unfolding main_state_machine [OF assms] by simp
qed

theorem no_trigger_resets_state_witness:
  "files (main float_str_example environ_configured yf_calm now_example fs_crashed) =
     save_state float_str_example
       (JObj [(''is_crash'', JBool False), (''first_detected'', JNull),
              (''last_checked'', JStr now_example)]) fs_crashed
   \<and> load_state (files (main float_str_example environ_configured yf_calm now_example
         fs_crashed)) =
       JObj [(''is_crash'', JBool False), (''first_detected'', JNull),
             (''last_checked'', JStr now_example)]
   \<and> trace (main float_str_example environ_configured yf_calm now_example fs_crashed) =
       [Download ''^NDX'', Download ''^GSPC'', Download ''^VIX'']"
  using no_trigger_resets_state [of environ_configured "''https://hooks.test/T0''"
      yf_calm None fs_crashed "JBool True" float_str_example now_example]
  by (auto simp: environ_configured_url calm_data load_fs_crashed dict_get_def
      get_market_data_events writable_fs_crashed)

end
